theory Spec2Isabelle
  imports Complex_Main "HOL-Library.Word" "HOL-Library.AList"
begin

unbundle bit_operations_syntax

section \<open>Python values\<close>

text \<open>
  The service handles JSON documents throughout: request bodies, the reply of the
  external auth API and the per-user record kept in the blob store are Python values
  produced by a JSON parser.  A Python \<open>str\<close> is represented by its UTF-8 bytes (so
  \<open>s.encode('utf-8')\<close> is the identity and lone surrogates do not occur), Python's
  \<open>None\<close> is \<open>JNull\<close>, and a \<open>float\<close> is represented by its exact value: rounding,
  overflow, infinities and NaN of IEEE doubles are outside the model.  A \<open>dict\<close> is an
  association list in insertion order.
\<close>

datatype json =
    JNull
  | JBool bool
  | JInt int
  | JFloat rat
  | JStr string
  | JArr "json list"
  | JObj "(string \<times> json) list"

text \<open>Truth value of a Python object, as used by \<open>not x\<close>, \<open>x or y\<close> and \<open>all([...])\<close>.\<close>

fun truthy :: "json \<Rightarrow> bool" where
  "truthy JNull = False"
| "truthy (JBool b) = b"
| "truthy (JInt n) = (n \<noteq> 0)"
| "truthy (JFloat q) = (q \<noteq> 0)"
| "truthy (JStr s) = (s \<noteq> [])"
| "truthy (JArr xs) = (xs \<noteq> [])"
| "truthy (JObj kvs) = (kvs \<noteq> [])"

section \<open>SHA-256, HMAC and hexadecimal digests\<close>

text \<open>
  \<open>hashlib.sha256\<close> (FIPS 180-4) and \<open>hmac.new(key, msg, hashlib.sha256)\<close>
  (RFC 2104, block size 64) of the Python standard library.  The round constants and the
  initial state are written in decimal.
\<close>

type_synonym byte = "8 word"
type_synonym w32 = "32 word"

definition encode_utf8 :: "string \<Rightarrow> byte list" where
  "encode_utf8 s = map of_char s"

definition Ch :: "w32 \<Rightarrow> w32 \<Rightarrow> w32 \<Rightarrow> w32" where
  "Ch x y z = (x AND y) XOR (NOT x AND z)"

definition Maj :: "w32 \<Rightarrow> w32 \<Rightarrow> w32 \<Rightarrow> w32" where
  "Maj x y z = (x AND y) XOR (x AND z) XOR (y AND z)"

definition bsig0 :: "w32 \<Rightarrow> w32" where
  "bsig0 x = word_rotr 2 x XOR word_rotr 13 x XOR word_rotr 22 x"

definition bsig1 :: "w32 \<Rightarrow> w32" where
  "bsig1 x = word_rotr 6 x XOR word_rotr 11 x XOR word_rotr 25 x"

definition ssig0 :: "w32 \<Rightarrow> w32" where
  "ssig0 x = word_rotr 7 x XOR word_rotr 18 x XOR drop_bit 3 x"

definition ssig1 :: "w32 \<Rightarrow> w32" where
  "ssig1 x = word_rotr 17 x XOR word_rotr 19 x XOR drop_bit 10 x"

definition sha256_K :: "w32 list" where
  "sha256_K =
  [1116352408, 1899447441, 3049323471, 3921009573,
    961987163, 1508970993, 2453635748, 2870763221,
   3624381080,  310598401,  607225278, 1426881987,
   1925078388, 2162078206, 2614888103, 3248222580,
   3835390401, 4022224774,  264347078,  604807628,
    770255983, 1249150122, 1555081692, 1996064986,
   2554220882, 2821834349, 2952996808, 3210313671,
   3336571891, 3584528711,  113926993,  338241895,
    666307205,  773529912, 1294757372, 1396182291,
   1695183700, 1986661051, 2177026350, 2456956037,
   2730485921, 2820302411, 3259730800, 3345764771,
   3516065817, 3600352804, 4094571909,  275423344,
    430227734,  506948616,  659060556,  883997877,
    958139571, 1322822218, 1537002063, 1747873779,
   1955562222, 2024104815, 2227730452, 2361852424,
   2428436474, 2756734187, 3204031479, 3329325298]"

type_synonym sha_state = "w32 \<times> w32 \<times> w32 \<times> w32 \<times> w32 \<times> w32 \<times> w32 \<times> w32"

definition sha256_H0 :: sha_state where
  "sha256_H0 = (1779033703, 3144134277, 1013904242, 2773480762,
                1359893119, 2600822924, 528734635, 1541459225)"

definition be_bytes32 :: "w32 \<Rightarrow> byte list" where
  "be_bytes32 w = [ucast (drop_bit 24 w), ucast (drop_bit 16 w), ucast (drop_bit 8 w), ucast w]"

definition be_bytes64 :: "64 word \<Rightarrow> byte list" where
  "be_bytes64 w = map (\<lambda>i. ucast (drop_bit (8 * i) w)) [7, 6, 5, 4, 3, 2, 1, 0]"

definition be_word32 :: "byte list \<Rightarrow> w32" where
  "be_word32 bs = foldl (\<lambda>acc b. push_bit 8 acc OR ucast b) 0 bs"

definition sha256_pad :: "byte list \<Rightarrow> byte list" where
  "sha256_pad m =
     m @ [0x80] @ replicate ((64 - (length m + 9) mod 64) mod 64) 0
       @ be_bytes64 (of_nat (8 * length m))"

primrec blocks :: "nat \<Rightarrow> byte list \<Rightarrow> byte list list" where
  "blocks 0 bs = []"
| "blocks (Suc k) bs = take 64 bs # blocks k (drop 64 bs)"

primrec words :: "nat \<Rightarrow> byte list \<Rightarrow> w32 list" where
  "words 0 bs = []"
| "words (Suc k) bs = be_word32 (take 4 bs) # words k (drop 4 bs)"

primrec expand :: "nat \<Rightarrow> w32 list \<Rightarrow> w32 list" where
  "expand 0 ws = ws"
| "expand (Suc n) ws =
     expand n (ws @ [ssig1 (ws ! (length ws - 2)) + ws ! (length ws - 7)
                     + ssig0 (ws ! (length ws - 15)) + ws ! (length ws - 16)])"

definition schedule :: "byte list \<Rightarrow> w32 list" where
  "schedule block = expand 48 (words 16 block)"

fun sha_round :: "sha_state \<Rightarrow> w32 \<times> w32 \<Rightarrow> sha_state" where
  "sha_round (a, b, c, d, e, f, g, h) (k, w) =
     (let T1 = h + bsig1 e + Ch e f g + k + w;
          T2 = bsig0 a + Maj a b c
      in (T1 + T2, a, b, c, d + T1, e, f, g))"

fun add_state :: "sha_state \<Rightarrow> sha_state \<Rightarrow> sha_state" where
  "add_state (a, b, c, d, e, f, g, h) (a', b', c', d', e', f', g', h') =
     (a + a', b + b', c + c', d + d', e + e', f + f', g + g', h + h')"

definition compress :: "sha_state \<Rightarrow> byte list \<Rightarrow> sha_state" where
  "compress H block = add_state H (foldl sha_round H (zip sha256_K (schedule block)))"

fun state_bytes :: "sha_state \<Rightarrow> byte list" where
  "state_bytes (a, b, c, d, e, f, g, h) =
     be_bytes32 a @ be_bytes32 b @ be_bytes32 c @ be_bytes32 d
     @ be_bytes32 e @ be_bytes32 f @ be_bytes32 g @ be_bytes32 h"

definition sha256 :: "byte list \<Rightarrow> byte list" where
  "sha256 m =
     (let p = sha256_pad m
      in state_bytes (foldl compress sha256_H0 (blocks (length p div 64) p)))"

definition hmac_sha256 :: "byte list \<Rightarrow> byte list \<Rightarrow> byte list" where
  "hmac_sha256 key msg =
     (let k0 = (if length key > 64 then sha256 key else key);
          k = k0 @ replicate (64 - length k0) 0
      in sha256 (map (\<lambda>b. b XOR 0x5c) k @ sha256 (map (\<lambda>b. b XOR 0x36) k @ msg)))"

definition hexdigit :: "nat \<Rightarrow> char" where
  "hexdigit n = ''0123456789abcdef'' ! n"

definition hexdigest :: "byte list \<Rightarrow> string" where
  "hexdigest bs = concat (map (\<lambda>b. [hexdigit (unat b div 16), hexdigit (unat b mod 16)]) bs)"

section \<open>Dictionaries, exceptions and the Python runtime\<close>

datatype exn =
    AttributeError string string
  | KeyError string
  | TypeError
  | ValueError
  | BadRequest
  | RequestException string

fun type_name :: "json \<Rightarrow> string" where
  "type_name JNull = ''NoneType''"
| "type_name (JBool b) = ''bool''"
| "type_name (JInt n) = ''int''"
| "type_name (JFloat q) = ''float''"
| "type_name (JStr s) = ''str''"
| "type_name (JArr xs) = ''list''"
| "type_name (JObj kvs) = ''dict''"

text \<open>\<open>d.get(k, default)\<close>: only a \<open>dict\<close> has the method.\<close>

fun py_get :: "json \<Rightarrow> string \<Rightarrow> json \<Rightarrow> exn + json" where
  "py_get (JObj kvs) k d = Inr (case map_of kvs k of None \<Rightarrow> d | Some v \<Rightarrow> v)"
| "py_get v k d = Inl (AttributeError (type_name v) ''get'')"

text \<open>\<open>d[k]\<close> with a string key: \<open>KeyError\<close> on a dict without the key, \<open>TypeError\<close> on
  every other value.\<close>

fun py_getitem :: "json \<Rightarrow> string \<Rightarrow> exn + json" where
  "py_getitem (JObj kvs) k = (case map_of kvs k of None \<Rightarrow> Inl (KeyError k) | Some v \<Rightarrow> Inr v)"
| "py_getitem v k = Inl TypeError"

text \<open>\<open>d[k] = v\<close> on a dict: replaces the value in place or appends the key.\<close>

definition py_setitem :: "(string \<times> json) list \<Rightarrow> string \<Rightarrow> json \<Rightarrow> (string \<times> json) list" where
  "py_setitem kvs k v = AList.update k v kvs"

datatype datetime = Aware int | Naive int

text \<open>
  Functions of the Python runtime and standard library whose results the service only
  passes on.  Times are microseconds since the epoch; \<open>Aware t\<close> is a datetime with a UTC
  offset denoting the instant \<open>t\<close>, \<open>Naive t\<close> one without offset.  \<open>json_loads\<close> and
  \<open>fromisoformat\<close> return \<open>None\<close> where Python raises \<open>ValueError\<close>.
\<close>

record lib =
  json_dumps :: "json \<Rightarrow> string"
  json_loads :: "string \<Rightarrow> json option"
  fromisoformat :: "string \<Rightarrow> datetime option"
  isoformat :: "int \<Rightarrow> string"
  py_str :: "json \<Rightarrow> string"
  exc_str :: "exn \<Rightarrow> string"
  round1 :: "rat \<Rightarrow> rat"
  format_1f :: "rat \<Rightarrow> string"

text \<open>Interpolation \<open>{v}\<close> in an f-string: a \<open>str\<close> is inserted as it is.\<close>

fun format_value :: "lib \<Rightarrow> json \<Rightarrow> string" where
  "format_value L (JStr s) = s"
| "format_value L v = py_str L v"

text \<open>\<open>s.replace('Z', '+00:00')\<close>\<close>

definition replace_Z :: "string \<Rightarrow> string" where
  "replace_Z s = concat (map (\<lambda>c. if c = CHR ''Z'' then ''+00:00'' else [c]) s)"

text \<open>
  \<open>s.strip()\<close> removes leading and trailing whitespace code points: U+0009..U+000D,
  U+001C..U+0020, U+0085, U+00A0, U+1680, U+2000..U+200A, U+2028, U+2029, U+202F, U+205F
  and U+3000, here in their UTF-8 encodings of one, two or three bytes.
\<close>

definition ws1 :: "char \<Rightarrow> bool" where
  "ws1 c = (let n = (of_char c :: nat) in (9 \<le> n \<and> n \<le> 13) \<or> (28 \<le> n \<and> n \<le> 32))"

definition ws2 :: "char \<Rightarrow> char \<Rightarrow> bool" where
  "ws2 c d = ((of_char c :: nat) = 0xC2 \<and> ((of_char d :: nat) = 0x85 \<or> (of_char d :: nat) = 0xA0))"

definition ws3 :: "char \<Rightarrow> char \<Rightarrow> char \<Rightarrow> bool" where
  "ws3 c d e =
     (let x = (of_char c :: nat); y = (of_char d :: nat); z = (of_char e :: nat)
      in (x = 0xE1 \<and> y = 0x9A \<and> z = 0x80)
       \<or> (x = 0xE2 \<and> y = 0x80 \<and> ((0x80 \<le> z \<and> z \<le> 0x8A) \<or> z = 0xA8 \<or> z = 0xA9 \<or> z = 0xAF))
       \<or> (x = 0xE2 \<and> y = 0x81 \<and> z = 0x9F)
       \<or> (x = 0xE3 \<and> y = 0x80 \<and> z = 0x80))"

fun lstrip :: "string \<Rightarrow> string" where
  "lstrip (c # d # e # es) =
     (if ws1 c then lstrip (d # e # es)
      else if ws2 c d then lstrip (e # es)
      else if ws3 c d e then lstrip es
      else c # d # e # es)"
| "lstrip [c, d] = (if ws1 c then lstrip [d] else if ws2 c d then [] else [c, d])"
| "lstrip [c] = (if ws1 c then [] else [c])"
| "lstrip [] = []"

text \<open>The same from the end, on the reversed string.\<close>

fun rstrip_rev :: "string \<Rightarrow> string" where
  "rstrip_rev (e # d # c # cs) =
     (if ws1 e then rstrip_rev (d # c # cs)
      else if ws2 d e then rstrip_rev (c # cs)
      else if ws3 c d e then rstrip_rev cs
      else e # d # c # cs)"
| "rstrip_rev [e, d] = (if ws1 e then rstrip_rev [d] else if ws2 d e then [] else [e, d])"
| "rstrip_rev [e] = (if ws1 e then [] else [e])"
| "rstrip_rev [] = []"

definition py_strip :: "string \<Rightarrow> string" where
  "py_strip s = rev (rstrip_rev (rev (lstrip s)))"

text \<open>\<open>int(x)\<close> of a float truncates towards zero.\<close>

definition py_int :: "rat \<Rightarrow> int" where
  "py_int q = (if q < 0 then - \<lfloor>- q\<rfloor> else \<lfloor>q\<rfloor>)"

text \<open>A value usable as a number in \<open><\<close> and \<open>-\<close> with a float (\<open>bool\<close> is an \<open>int\<close>).\<close>

fun as_number :: "json \<Rightarrow> rat option" where
  "as_number (JInt n) = Some (of_int n)"
| "as_number (JBool b) = Some (if b then 1 else 0)"
| "as_number (JFloat q) = Some q"
| "as_number v = None"

section \<open>The service and its environment\<close>

text \<open>
  The state a request can change is the content of the bucket; \<open>trace\<close> records the calls
  issued to the blob store and to the external auth API, in order.  Everything else a
  request depends on is read from the environment: whether the S3 client was created at
  start-up (\<open>s3_client\<close>), whether the backend call of this request raises, what the auth
  API does with a request, the successive readings of the clock, and the configured base
  URL.
\<close>

datatype event = S3Get string | S3Put string string | HttpPost string json

record world =
  s3_objects :: "string \<Rightarrow> string option"
  trace :: "event list"

record http_response =
  status_code :: int
  response_text :: string

record env =
  s3_client :: bool
  s3_put_raises :: bool
  s3_get_raises :: bool
  auth_api :: "string \<Rightarrow> json \<Rightarrow> exn + http_response"
  clock :: "nat \<Rightarrow> int"
  api_base_url :: string


definition TOKEN_EXPIRY_SECONDS :: int where
  "TOKEN_EXPIRY_SECONDS = 28 * 24 * 60 * 60"

definition create_hmac_signature :: "lib \<Rightarrow> json \<Rightarrow> json \<Rightarrow> json \<Rightarrow> exn + string" where
  "create_hmac_signature L workspace_id client_id client_secret =
     (let message = format_value L workspace_id @ ''_'' @ format_value L client_id
      in case client_secret of
           JStr secret \<Rightarrow> Inr (hexdigest (hmac_sha256 (encode_utf8 secret) (encode_utf8 message)))
         | v \<Rightarrow> Inl (AttributeError (type_name v) ''encode''))"

definition object_key :: "lib \<Rightarrow> json \<Rightarrow> string" where
  "object_key L canva_user_id = ''canva-catalog-app/'' @ format_value L canva_user_id @ ''.json''"

definition put_object :: "env \<Rightarrow> world \<Rightarrow> string \<Rightarrow> string \<Rightarrow> bool \<times> world" where
  "put_object E w key body =
     (if s3_put_raises E then (False, w\<lparr>trace := trace w @ [S3Put key body]\<rparr>)
      else (True, w\<lparr>s3_objects := (s3_objects w)(key \<mapsto> body),
                     trace := trace w @ [S3Put key body]\<rparr>))"

definition store_user_credentials ::
  "lib \<Rightarrow> env \<Rightarrow> world \<Rightarrow> json \<Rightarrow> json \<Rightarrow> json \<Rightarrow> json \<Rightarrow> json \<Rightarrow> int \<Rightarrow> bool \<times> world" where
  "store_user_credentials L E w canva_user_id workspace_id client_id client_secret login_token expires_in =
     (if \<not> s3_client E then (False, w)
      else
        let user_data = JObj
              [(''canva_user_id'', canva_user_id),
               (''workspace_id'', workspace_id),
               (''client_id'', client_id),
               (''client_secret'', client_secret),
               (''login_token'', login_token),
               (''token_timestamp'', JStr (isoformat L (clock E 0))),
               (''token_expires_in'', JInt expires_in)]
        in put_object E w (object_key L canva_user_id) (json_dumps L user_data))"

definition get_user_credentials :: "lib \<Rightarrow> env \<Rightarrow> world \<Rightarrow> json \<Rightarrow> json \<times> world" where
  "get_user_credentials L E w canva_user_id =
     (if \<not> s3_client E then (JNull, w)
      else
        let filename = object_key L canva_user_id;
            w' = w\<lparr>trace := trace w @ [S3Get filename]\<rparr>
        in if s3_get_raises E then (JNull, w')
           else case s3_objects w filename of
                  None \<Rightarrow> (JNull, w')
                | Some body \<Rightarrow>
                    (case json_loads L body of None \<Rightarrow> (JNull, w') | Some user_data \<Rightarrow> (user_data, w')))"

definition update_user_credentials :: "lib \<Rightarrow> env \<Rightarrow> world \<Rightarrow> json \<Rightarrow> json \<Rightarrow> bool \<times> world" where
  "update_user_credentials L E w canva_user_id updated_data =
     (if \<not> s3_client E then (False, w)
      else put_object E w (object_key L canva_user_id) (json_dumps L updated_data))"

text \<open>
  The part of \<open>is_token_valid\<close> that \<open>get_token\<close> repeats: the age of the token in
  seconds at the time \<open>now\<close> and the stored lifetime, or the exception raised on the way.
\<close>

definition token_age :: "lib \<Rightarrow> int \<Rightarrow> json \<Rightarrow> exn + rat \<times> json" where
  "token_age L now user_data =
     (case py_getitem user_data ''token_timestamp'' of
        Inl e \<Rightarrow> Inl e
      | Inr ts \<Rightarrow>
         (case ts of
            JStr s \<Rightarrow>
              (case fromisoformat L (replace_Z s) of
                 None \<Rightarrow> Inl ValueError
               | Some token_timestamp \<Rightarrow>
                  (case py_get user_data ''token_expires_in'' (JInt TOKEN_EXPIRY_SECONDS) of
                     Inl e \<Rightarrow> Inl e
                   | Inr expires_in \<Rightarrow>
                      (case token_timestamp of
                         Naive t \<Rightarrow> Inl TypeError
                       | Aware t \<Rightarrow> Inr (of_int (now - t) / 1000000, expires_in))))
          | v \<Rightarrow> Inl (AttributeError (type_name v) ''replace'')))"

definition is_token_valid :: "lib \<Rightarrow> int \<Rightarrow> json \<Rightarrow> bool" where
  "is_token_valid L now user_data =
     (case token_age L now user_data of
        Inl e \<Rightarrow> False
      | Inr (age, expires_in) \<Rightarrow>
         (case as_number expires_in of
            None \<Rightarrow> False
          | Some ttl \<Rightarrow> age < ttl))"

section \<open>Request handlers\<close>

text \<open>
  A handler returns the pair that Flask turns into the reply (the \<open>jsonify\<close>-ed body and
  the status, 200 when the source gives none) together with the new state.  The body of
  each \<open>try\<close> block is a function \<open>..._try\<close> whose left results are the exceptions that
  reach the \<open>except\<close> clauses, with the state at the moment they are raised;
  \<open>raising x w f\<close> continues with the value of \<open>x\<close> or leaves the block with its
  exception.  \<open>request.get_json()\<close> is an input: the parsed body, or the exception it
  raises.
\<close>

type_synonym response = "json \<times> int"

type_synonym outcome = "exn \<times> world + response \<times> world"

definition raising :: "exn + 'a \<Rightarrow> world \<Rightarrow> ('a \<Rightarrow> outcome) \<Rightarrow> outcome" where
  "raising x w f = (case x of Inl e \<Rightarrow> Inl (e, w) | Inr v \<Rightarrow> f v)"

definition requests_post :: "env \<Rightarrow> world \<Rightarrow> string \<Rightarrow> json \<Rightarrow> (exn + http_response) \<times> world" where
  "requests_post E w url payload =
     (auth_api E url payload, w\<lparr>trace := trace w @ [HttpPost url payload]\<rparr>)"

definition failure :: "string \<Rightarrow> (string \<times> json) list" where
  "failure msg = [(''success'', JBool False), (''error'', JStr msg)]"

text \<open>\<open>auth_data.get('token') or auth_data.get('access_token')\<close>\<close>

definition token_or_access_token :: "json \<Rightarrow> exn + json" where
  "token_or_access_token auth_data =
     (case py_get auth_data ''token'' JNull of
        Inl e \<Rightarrow> Inl e
      | Inr t \<Rightarrow> if truthy t then Inr t else py_get auth_data ''access_token'' JNull)"

definition login_try :: "lib \<Rightarrow> env \<Rightarrow> world \<Rightarrow> exn + json \<Rightarrow> outcome" where
  "login_try L E w request_json =
    raising request_json w (\<lambda>data.
    raising (py_get data ''workspaceId'' JNull) w (\<lambda>workspace_id.
    raising (py_get data ''clientId'' JNull) w (\<lambda>client_id.
    raising (py_get data ''clientSecret'' JNull) w (\<lambda>client_secret.
    raising (py_get data ''canvaUserId'' JNull) w (\<lambda>canva_user_id.
    if \<not> (truthy workspace_id \<and> truthy client_id \<and> truthy client_secret \<and> truthy canva_user_id)
    then Inr ((JObj (failure ''Missing required credentials''), 400), w)
    else
    raising (create_hmac_signature L workspace_id client_id client_secret) w (\<lambda>signature.
    let auth_payload = JObj [(''workspaceId'', workspace_id), (''clientId'', client_id),
                             (''signature'', JStr signature)];
        (r, w1) = requests_post E w (api_base_url E @ ''/mdm-integration/v1/api/auth/login'')
                    auth_payload
    in
    raising r w1 (\<lambda>auth_response.
    if status_code auth_response \<notin> set [200, 201, 202]
    then Inr ((JObj (failure ''Authentication failed with Zotok API''
                     @ [(''details'', JStr (response_text auth_response)),
                        (''status_code'', JInt (status_code auth_response))]), 401), w1)
    else
    (case json_loads L (response_text auth_response) of
      None \<Rightarrow> Inr ((JObj (failure ''Invalid JSON response from Zotok API''
                     @ [(''details'', JStr (response_text auth_response))]), 401), w1)
    | Some auth_data \<Rightarrow>
    raising (token_or_access_token auth_data) w1 (\<lambda>login_token.
    if \<not> truthy login_token
    then Inr ((JObj (failure ''No token received from Zotok API''), 401), w1)
    else
    let (stored, w2) = store_user_credentials L E w1 canva_user_id workspace_id client_id
                         client_secret login_token TOKEN_EXPIRY_SECONDS
    in
    if stored
    then Inr ((JObj [(''success'', JBool True),
                     (''token'', login_token),
                     (''expires_in'', JInt TOKEN_EXPIRY_SECONDS),
                     (''expires_in_days'', JFloat (of_int TOKEN_EXPIRY_SECONDS / (24 * 60 * 60))),
                     (''message'', JStr ''Authentication successful - token valid for 28 days'')],
               200), w2)
    else Inr ((JObj (failure ''Failed to store credentials''), 500), w2))))))))))"

definition login :: "lib \<Rightarrow> env \<Rightarrow> world \<Rightarrow> exn + json \<Rightarrow> response \<times> world" where
  "login L E w request_json =
     (case login_try L E w request_json of
        Inr rw \<Rightarrow> rw
      | Inl (e, w') \<Rightarrow>
         (case e of
            RequestException m \<Rightarrow>
              ((JObj (failure ''Network error during authentication''
                      @ [(''details'', JStr (exc_str L e))]), 500), w')
          | _ \<Rightarrow>
              ((JObj (failure ''Internal server error''
                      @ [(''details'', JStr (exc_str L e))]), 500), w')))"

definition get_token_try :: "lib \<Rightarrow> env \<Rightarrow> world \<Rightarrow> string option \<Rightarrow> outcome" where
  "get_token_try L E w canvaUserId =
   (case canvaUserId of
      None \<Rightarrow> Inr ((JObj (failure ''Missing canvaUserId parameter''), 400), w)
    | Some canva_user_id \<Rightarrow>
    if canva_user_id = []
    then Inr ((JObj (failure ''Missing canvaUserId parameter''), 400), w)
    else
    let (user_data, w1) = get_user_credentials L E w (JStr canva_user_id) in
    if \<not> truthy user_data
    then Inr ((JObj (failure ''No stored credentials found''), 404), w1)
    else
    if is_token_valid L (clock E 0) user_data
    then
      raising (token_age L (clock E 1) user_data) w1 (\<lambda>(age, expires_in).
      raising (case as_number expires_in of None \<Rightarrow> Inl TypeError | Some ttl \<Rightarrow> Inr ttl) w1 (\<lambda>ttl.
      let remaining_seconds = ttl - age;
          remaining_days = remaining_seconds / (24 * 60 * 60)
      in
      raising (py_getitem user_data ''login_token'') w1 (\<lambda>token.
      Inr ((JObj [(''success'', JBool True),
                  (''token'', token),
                  (''remaining_seconds'', JInt (py_int remaining_seconds)),
                  (''remaining_days'', JFloat (round1 L remaining_days)),
                  (''message'', JStr (''Valid token retrieved - '' @ format_1f L remaining_days
                                      @ '' days remaining''))], 200), w1))))
    else Inr ((JObj (failure ''Stored token has expired''), 401), w1))"

definition get_token :: "lib \<Rightarrow> env \<Rightarrow> world \<Rightarrow> string option \<Rightarrow> response \<times> world" where
  "get_token L E w canvaUserId =
     (case get_token_try L E w canvaUserId of
        Inr rw \<Rightarrow> rw
      | Inl (e, w') \<Rightarrow>
          ((JObj (failure ''Error retrieving token'' @ [(''details'', JStr (exc_str L e))]), 500), w'))"

definition refresh_token_try :: "lib \<Rightarrow> env \<Rightarrow> world \<Rightarrow> exn + json \<Rightarrow> outcome" where
  "refresh_token_try L E w request_json =
    raising request_json w (\<lambda>data.
    raising (py_get data ''canvaUserId'' JNull) w (\<lambda>canva_user_id.
    if \<not> truthy canva_user_id
    then Inr ((JObj (failure ''Missing canvaUserId''), 400), w)
    else
    let (user_data, w1) = get_user_credentials L E w canva_user_id in
    if \<not> truthy user_data
    then Inr ((JObj (failure ''No stored credentials found''), 404), w1)
    else
    raising (py_getitem user_data ''workspace_id'') w1 (\<lambda>workspace_id.
    raising (py_getitem user_data ''client_id'') w1 (\<lambda>client_id.
    raising (py_getitem user_data ''client_secret'') w1 (\<lambda>client_secret.
    raising (create_hmac_signature L workspace_id client_id client_secret) w1 (\<lambda>signature.
    let auth_payload = JObj [(''workspaceId'', workspace_id), (''clientId'', client_id),
                             (''signature'', JStr signature)];
        (r, w2) = requests_post E w1 (api_base_url E @ ''/mdm-integration/v1/api/auth/login'')
                    auth_payload
    in
    raising r w2 (\<lambda>auth_response.
    if status_code auth_response \<notin> set [200, 201, 202]
    then Inr ((JObj (failure ''Token refresh failed''
                     @ [(''details'', JStr (response_text auth_response)),
                        (''status_code'', JInt (status_code auth_response))]), 401), w2)
    else
    (case json_loads L (response_text auth_response) of
      None \<Rightarrow> Inr ((JObj (failure ''Invalid JSON response from Zotok API during refresh''
                     @ [(''details'', JStr (response_text auth_response))]), 401), w2)
    | Some auth_data \<Rightarrow>
    raising (token_or_access_token auth_data) w2 (\<lambda>new_token.
    if \<not> truthy new_token
    then Inr ((JObj (failure ''No token received during refresh''), 401), w2)
    else
    let (stored, w3) = store_user_credentials L E w2 canva_user_id workspace_id client_id
                         client_secret new_token TOKEN_EXPIRY_SECONDS
    in
    if stored
    then Inr ((JObj [(''success'', JBool True),
                     (''token'', new_token),
                     (''expires_in'', JInt TOKEN_EXPIRY_SECONDS),
                     (''expires_in_days'', JFloat (of_int TOKEN_EXPIRY_SECONDS / (24 * 60 * 60))),
                     (''message'', JStr ''Token refreshed successfully - valid for 28 days'')],
               200), w3)
    else Inr ((JObj (failure ''Failed to store refreshed token''), 500), w3))))))))))"

definition refresh_token :: "lib \<Rightarrow> env \<Rightarrow> world \<Rightarrow> exn + json \<Rightarrow> response \<times> world" where
  "refresh_token L E w request_json =
     (case refresh_token_try L E w request_json of
        Inr rw \<Rightarrow> rw
      | Inl (e, w') \<Rightarrow>
          ((JObj (failure ''Error refreshing token'' @ [(''details'', JStr (exc_str L e))]), 500), w'))"

text \<open>
  The settings endpoint is routed for GET and POST only.  A request carries the query
  parameter \<open>canvaUserId\<close>, the \<open>Authorization\<close> header and the JSON body.
\<close>

datatype http_method = GET | POST

record settings_request =
  req_method :: http_method
  arg_canvaUserId :: "string option"
  hdr_Authorization :: "string option"
  req_json :: "exn + json"

definition is_empty_opt :: "string option \<Rightarrow> bool" where
  "is_empty_opt x = (case x of None \<Rightarrow> True | Some s \<Rightarrow> s = [])"

text \<open>\<open>data.get('phoneNumber', '').strip()\<close>: only a \<open>str\<close> has the method.\<close>

definition stripped :: "json \<Rightarrow> exn + string" where
  "stripped v = (case v of JStr s \<Rightarrow> Inr (py_strip s) | _ \<Rightarrow> Inl (AttributeError (type_name v) ''strip''))"

text \<open>The two item assignments of the POST branch; \<open>user_data\<close> is a dict once its token
  was found valid, any other value raises \<open>TypeError\<close>.\<close>

definition with_phone :: "lib \<Rightarrow> json \<Rightarrow> string \<Rightarrow> int \<Rightarrow> exn + json" where
  "with_phone L user_data phone_number now =
     (case user_data of
        JObj kvs \<Rightarrow> Inr (JObj (py_setitem (py_setitem kvs ''phoneNumber'' (JStr phone_number))
                                  ''settings_updated'' (JStr (isoformat L now))))
      | _ \<Rightarrow> Inl TypeError)"

definition user_settings_get :: "lib \<Rightarrow> env \<Rightarrow> world \<Rightarrow> settings_request \<Rightarrow> outcome" where
  "user_settings_get L E w request =
     (if is_empty_opt (arg_canvaUserId request)
      then Inr ((JObj (failure ''Missing canvaUserId parameter''), 400), w)
      else
      if is_empty_opt (hdr_Authorization request)
      then Inr ((JObj (failure ''Authorization header missing''), 401), w)
      else
      let (user_data, w1) = get_user_credentials L E w
                              (case arg_canvaUserId request of Some s \<Rightarrow> JStr s | None \<Rightarrow> JNull)
      in
      if \<not> truthy user_data
      then Inr ((JObj (failure ''User data not found''), 404), w1)
      else
      if \<not> is_token_valid L (clock E 0) user_data
      then Inr ((JObj (failure ''Token expired''), 401), w1)
      else
      raising (py_get user_data ''phoneNumber'' (JStr [])) w1 (\<lambda>phone_number.
      Inr ((JObj [(''success'', JBool True), (''phoneNumber'', phone_number)], 200), w1)))"

definition user_settings_post :: "lib \<Rightarrow> env \<Rightarrow> world \<Rightarrow> settings_request \<Rightarrow> outcome" where
  "user_settings_post L E w request =
      raising (req_json request) w (\<lambda>data.
      if \<not> truthy data
      then Inr ((JObj (failure ''No data provided''), 400), w)
      else
      raising (py_get data ''canvaUserId'' JNull) w (\<lambda>canva_user_id.
      raising (py_get data ''phoneNumber'' (JStr [])) w (\<lambda>raw_phone.
      raising (stripped raw_phone) w (\<lambda>phone_number.
      if \<not> truthy canva_user_id
      then Inr ((JObj (failure ''Missing canvaUserId''), 400), w)
      else
      if phone_number = []
      then Inr ((JObj (failure ''Phone number is required''), 400), w)
      else
      if is_empty_opt (hdr_Authorization request)
      then Inr ((JObj (failure ''Authorization header missing''), 401), w)
      else
      let (user_data, w1) = get_user_credentials L E w canva_user_id in
      if \<not> truthy user_data
      then Inr ((JObj (failure ''User data not found''), 404), w1)
      else
      if \<not> is_token_valid L (clock E 0) user_data
      then Inr ((JObj (failure ''Token expired''), 401), w1)
      else
      raising (with_phone L user_data phone_number (clock E 1)) w1 (\<lambda>updated.
      let (saved, w2) = update_user_credentials L E w1 canva_user_id updated in
      if saved
      then Inr ((JObj [(''success'', JBool True),
                       (''message'', JStr ''Settings saved successfully''),
                       (''phoneNumber'', JStr phone_number)], 200), w2)
      else Inr ((JObj (failure ''Failed to save settings to storage''), 500), w2))))))"

definition user_settings :: "lib \<Rightarrow> env \<Rightarrow> world \<Rightarrow> settings_request \<Rightarrow> response \<times> world" where
  "user_settings L E w request =
     (case (case req_method request of
              GET \<Rightarrow> user_settings_get L E w request
            | POST \<Rightarrow> user_settings_post L E w request) of
        Inr rw \<Rightarrow> rw
      | Inl (e, w') \<Rightarrow>
          ((JObj (failure ''Internal server error'' @ [(''details'', JStr (exc_str L e))]), 500), w'))"

text \<open>Shorthands for the request sent to the auth API and for the record that
  \<open>store_user_credentials\<close> builds.\<close>

abbreviation auth_url :: "env \<Rightarrow> string" where
  "auth_url E \<equiv> api_base_url E @ ''/mdm-integration/v1/api/auth/login''"

abbreviation auth_request :: "json \<Rightarrow> json \<Rightarrow> string \<Rightarrow> json" where
  "auth_request workspace_id client_id signature \<equiv>
     JObj [(''workspaceId'', workspace_id), (''clientId'', client_id), (''signature'', JStr signature)]"

abbreviation user_record :: "json \<Rightarrow> json \<Rightarrow> json \<Rightarrow> json \<Rightarrow> json \<Rightarrow> string \<Rightarrow> int \<Rightarrow> json" where
  "user_record canva_user_id workspace_id client_id client_secret login_token timestamp expires_in \<equiv>
     JObj [(''canva_user_id'', canva_user_id),
           (''workspace_id'', workspace_id),
           (''client_id'', client_id),
           (''client_secret'', client_secret),
           (''login_token'', login_token),
           (''token_timestamp'', JStr timestamp),
           (''token_expires_in'', JInt expires_in)]"

section \<open>A concrete scenario\<close>

text \<open>
  The scenario of the specification: user \<open>u1\<close> logs in with \<open>w1\<close>, \<open>c1\<close>, \<open>s1\<close> on
  2024-01-01T00:00:00Z and receives \<open>tok123\<close>; a phone number is saved the next day; the
  token is refreshed to \<open>tok456\<close> on 2024-01-15.  \<open>example_lib\<close> interprets the library
  functions on the finitely many documents and timestamps of the scenario.
\<close>

definition t_login :: int where "t_login = 1704067200000000"
definition t_settings :: int where "t_settings = 1704153600000000"
definition t_refresh :: int where "t_refresh = 1705276800000000"

definition credentials_u1 :: "string \<Rightarrow> string \<Rightarrow> (string \<times> json) list" where
  "credentials_u1 token timestamp =
     [(''canva_user_id'', JStr ''u1''),
      (''workspace_id'', JStr ''w1''),
      (''client_id'', JStr ''c1''),
      (''client_secret'', JStr ''s1''),
      (''login_token'', JStr token),
      (''token_timestamp'', JStr timestamp),
      (''token_expires_in'', JInt 2419200)]"

definition rec_u1 :: json where
  "rec_u1 = JObj (credentials_u1 ''tok123'' ''2024-01-01T00:00:00+00:00'')"

definition rec_u1_phone :: json where
  "rec_u1_phone = JObj (credentials_u1 ''tok123'' ''2024-01-01T00:00:00+00:00''
                        @ [(''phoneNumber'', JStr ''+15550100''),
                           (''settings_updated'', JStr ''2024-01-02T00:00:00+00:00'')])"

definition rec_u1_refreshed :: json where
  "rec_u1_refreshed = JObj (credentials_u1 ''tok456'' ''2024-01-15T00:00:00+00:00'')"

definition doc_u1 :: string where
  \<open>doc_u1 = ''{"canva_user_id": "u1", "workspace_id": "w1", "client_id": "c1", "client_secret": "s1", "login_token": "tok123", "token_timestamp": "2024-01-01T00:00:00+00:00", "token_expires_in": 2419200}''\<close>

definition doc_u1_phone :: string where
  \<open>doc_u1_phone = ''{"canva_user_id": "u1", "workspace_id": "w1", "client_id": "c1", "client_secret": "s1", "login_token": "tok123", "token_timestamp": "2024-01-01T00:00:00+00:00", "token_expires_in": 2419200, "phoneNumber": "+15550100", "settings_updated": "2024-01-02T00:00:00+00:00"}''\<close>

definition doc_u1_refreshed :: string where
  \<open>doc_u1_refreshed = ''{"canva_user_id": "u1", "workspace_id": "w1", "client_id": "c1", "client_secret": "s1", "login_token": "tok456", "token_timestamp": "2024-01-15T00:00:00+00:00", "token_expires_in": 2419200}''\<close>

definition example_docs :: "(string \<times> json) list" where
  \<open>example_docs =
     [(doc_u1, rec_u1),
      (doc_u1_phone, rec_u1_phone),
      (doc_u1_refreshed, rec_u1_refreshed),
      (''{"token": "tok123"}'', JObj [(''token'', JStr ''tok123'')]),
      (''{"token": "tok456"}'', JObj [(''token'', JStr ''tok456'')]),
      (''{"token": "", "access_token": "tok789"}'',
         JObj [(''token'', JStr []), (''access_token'', JStr ''tok789'')]),
      (''{"token": ""}'', JObj [(''token'', JStr [])]),
      (''{"message": "ok"}'', JObj [(''message'', JStr ''ok'')]),
      (''{"error": "forbidden"}'', JObj [(''error'', JStr ''forbidden'')])]\<close>

definition example_dumps :: "json \<Rightarrow> string" where
  "example_dumps v =
     (case find (\<lambda>(doc, d). d = v) example_docs of Some (doc, d) \<Rightarrow> doc | None \<Rightarrow> ''null'')"

definition example_times :: "(string \<times> int) list" where
  "example_times =
     [(''2024-01-01T00:00:00+00:00'', t_login),
      (''2024-01-02T00:00:00+00:00'', t_settings),
      (''2024-01-15T00:00:00+00:00'', t_refresh)]"

definition example_isoformat :: "int \<Rightarrow> string" where
  "example_isoformat t =
     (case find (\<lambda>(s, t'). t' = t) example_times of Some (s, t') \<Rightarrow> s | None \<Rightarrow> ''1970-01-01T00:00:00+00:00'')"

definition example_lib :: lib where
  "example_lib =
     \<lparr> json_dumps = example_dumps,
       json_loads = map_of example_docs,
       fromisoformat = (\<lambda>s. map_option Aware (map_of example_times s)),
       isoformat = example_isoformat,
       py_str = (\<lambda>v. ''?''),
       exc_str = (\<lambda>e. ''exception''),
       round1 = (\<lambda>q. q),
       format_1f = (\<lambda>q. ''0.0'') \<rparr>"

definition example_env :: "bool \<Rightarrow> int \<Rightarrow> http_response \<Rightarrow> env" where
  "example_env client now reply =
     \<lparr> s3_client = client,
       s3_put_raises = False,
       s3_get_raises = False,
       auth_api = (\<lambda>url payload. Inr reply),
       clock = (\<lambda>n. now),
       api_base_url = ''https://api-qa.zono.digital'' \<rparr>"

definition empty_world :: world where
  "empty_world = \<lparr> s3_objects = Map.empty, trace = [] \<rparr>"

definition world_u1 :: "string \<Rightarrow> world" where
  "world_u1 doc = \<lparr> s3_objects = [''canva-catalog-app/u1.json'' \<mapsto> doc], trace = [] \<rparr>"

definition login_request_u1 :: json where
  "login_request_u1 = JObj [(''workspaceId'', JStr ''w1''), (''clientId'', JStr ''c1''),
                            (''clientSecret'', JStr ''s1''), (''canvaUserId'', JStr ''u1'')]"

definition signature_u1 :: string where
  "signature_u1 = hexdigest (hmac_sha256 (encode_utf8 ''s1'') (encode_utf8 ''w1_c1''))"

definition reply_token :: "string \<Rightarrow> http_response" where
  "reply_token body = \<lparr>status_code = 200, response_text = body\<rparr>"

definition refresh_request_u1 :: json where
  "refresh_request_u1 = JObj [(''canvaUserId'', JStr ''u1'')]"

section \<open>The signature generator\<close>

lemmas example_defs =
  example_lib_def example_docs_def example_times_def example_dumps_def example_isoformat_def
  rec_u1_def rec_u1_phone_def rec_u1_refreshed_def credentials_u1_def
  doc_u1_def doc_u1_phone_def doc_u1_refreshed_def t_login_def t_settings_def t_refresh_def
  replace_Z_def










section \<open>The token validity checker\<close>







section \<open>The credential store\<close>




section \<open>Requests that fail before or without a write\<close>

text \<open>
  C6.  A refresh request with a (non-empty) user id under which the bucket holds no
  object is answered 404 \<open>No stored credentials found\<close>.  The only call issued is the S3
  get (none at all when there is no S3 client): nothing is posted to the auth API, and
  the bucket is unchanged.
\<close>

theorem refresh_without_record:
  assumes "map_of kvs ''canvaUserId'' = Some canva_user_id" and "truthy canva_user_id"
      and "s3_objects w (object_key L canva_user_id) = None"
  shows "\<exists>w' evs. refresh_token L E w (Inr (JObj kvs))
                    = ((JObj (failure ''No stored credentials found''), 404), w')
           \<and> s3_objects w' = s3_objects w
           \<and> trace w' = trace w @ evs
           \<and> evs = (if s3_client E then [S3Get (object_key L canva_user_id)] else [])
           \<and> (\<forall>url payload. HttpPost url payload \<notin> set evs)"
  using assms
  by (simp add: refresh_token_def refresh_token_try_def raising_def get_user_credentials_def Let_def)

theorem refresh_without_record_witness:
  "\<exists>w'. refresh_token example_lib (example_env True t_refresh (reply_token [])) empty_world
            (Inr (JObj [(''canvaUserId'', JStr ''u1'')]))
          = ((JObj (failure ''No stored credentials found''), 404), w')
       \<and> s3_objects w' = Map.empty
       \<and> trace w' = [S3Get ''canva-catalog-app/u1.json'']"
  using refresh_without_record [where L = example_lib and E = "example_env True t_refresh (reply_token [])"
      and w = empty_world and kvs = "[(''canvaUserId'', JStr ''u1'')]"
      and canva_user_id = "JStr ''u1''"]
  by (auto simp add: empty_world_def example_env_def object_key_def)

text \<open>
  C8.  A POST to the settings endpoint whose \<open>phoneNumber\<close> is the empty string (or
  consists of whitespace only) is answered 400 and leaves the state as it was: no S3
  call is issued, neither get nor put.  The message is \<open>Phone number is required\<close>
  when the body names a user id, \<open>Missing canvaUserId\<close> otherwise.
\<close>

theorem set_phone_empty:
  assumes "req_method request = POST" and "req_json request = Inr (JObj kvs)"
      and "map_of kvs ''phoneNumber'' = Some (JStr s)" and "py_strip s = []"
  shows "user_settings L E w request
         = ((JObj (failure (if truthy (case map_of kvs ''canvaUserId'' of None \<Rightarrow> JNull | Some v \<Rightarrow> v)
                            then ''Phone number is required'' else ''Missing canvaUserId'')), 400), w)"
proof -
  from assms(3) have "kvs \<noteq> []" by auto
  with assms show ?thesis
    by (simp add: user_settings_def user_settings_post_def raising_def stripped_def)
qed

theorem set_phone_empty_witness:
  "user_settings example_lib (example_env True t_settings (reply_token [])) (world_u1 doc_u1)
     \<lparr> req_method = POST, arg_canvaUserId = None, hdr_Authorization = Some ''Bearer tok123'',
       req_json = Inr (JObj [(''canvaUserId'', JStr ''u1''), (''phoneNumber'', JStr [])]) \<rparr>
   = ((JObj (failure ''Phone number is required''), 400), world_u1 doc_u1)"
  using set_phone_empty [where L = example_lib and E = "example_env True t_settings (reply_token [])"
      and w = "world_u1 doc_u1" and s = "[]"
      and kvs = "[(''canvaUserId'', JStr ''u1''), (''phoneNumber'', JStr [])]"
      and request = "\<lparr> req_method = POST, arg_canvaUserId = None,
                       hdr_Authorization = Some ''Bearer tok123'',
                       req_json = Inr (JObj [(''canvaUserId'', JStr ''u1''),
                                             (''phoneNumber'', JStr [])]) \<rparr>"]
  by (simp add: py_strip_def)

text \<open>
  C3.  A login request whose four fields are present (the secret a non-empty string, as
  signing requires) and to which the auth API replies with a status other than 200, 201
  and 202 is answered 401 \<open>Authentication failed with Zotok API\<close>, with the upstream
  body and status in \<open>details\<close> and \<open>status_code\<close>.  The only call issued is the post
  to the auth API: there is no S3 put and the bucket is unchanged.
\<close>

theorem login_auth_rejected:
  assumes fields: "map_of kvs ''workspaceId'' = Some workspace_id"
                  "map_of kvs ''clientId'' = Some client_id"
                  "map_of kvs ''clientSecret'' = Some (JStr client_secret)"
                  "map_of kvs ''canvaUserId'' = Some canva_user_id"
      and present: "truthy workspace_id" "truthy client_id" "client_secret \<noteq> []" "truthy canva_user_id"
      and signature: "create_hmac_signature L workspace_id client_id (JStr client_secret) = Inr signature"
      and url: "url = api_base_url E @ ''/mdm-integration/v1/api/auth/login''"
      and payload: "payload = JObj [(''workspaceId'', workspace_id), (''clientId'', client_id),
                                    (''signature'', JStr signature)]"
      and reply: "auth_api E url payload = Inr auth_response"
      and status: "status_code auth_response \<notin> {200, 201, 202}"
  shows "\<exists>w'. login L E w (Inr (JObj kvs))
              = ((JObj [(''success'', JBool False),
                        (''error'', JStr ''Authentication failed with Zotok API''),
                        (''details'', JStr (response_text auth_response)),
                        (''status_code'', JInt (status_code auth_response))], 401), w')
            \<and> s3_objects w' = s3_objects w
            \<and> trace w' = trace w @ [HttpPost url payload]"
  using fields present signature reply status unfolding url payload
  by (simp add: login_def login_try_def raising_def requests_post_def failure_def)

theorem login_auth_rejected_witness:
  \<open>\<exists>w'. login example_lib
            (example_env True t_login \<lparr>status_code = 403, response_text = ''{"error": "forbidden"}''\<rparr>)
            (world_u1 doc_u1)
            (Inr (JObj [(''workspaceId'', JStr ''w1''), (''clientId'', JStr ''c1''),
                        (''clientSecret'', JStr ''s1''), (''canvaUserId'', JStr ''u1'')]))
          = ((JObj [(''success'', JBool False),
                    (''error'', JStr ''Authentication failed with Zotok API''),
                    (''details'', JStr ''{"error": "forbidden"}''),
                    (''status_code'', JInt 403)], 401), w')
        \<and> s3_objects w' = s3_objects (world_u1 doc_u1)
        \<and> (\<exists>request. trace w' = [request])\<close>
  using login_auth_rejected [where L = example_lib and w = "world_u1 doc_u1"
      and E = \<open>example_env True t_login \<lparr>status_code = 403, response_text = ''{"error": "forbidden"}''\<rparr>\<close>
      and kvs = "[(''workspaceId'', JStr ''w1''), (''clientId'', JStr ''c1''),
                  (''clientSecret'', JStr ''s1''), (''canvaUserId'', JStr ''u1'')]"
      and workspace_id = "JStr ''w1''" and client_id = "JStr ''c1''" and client_secret = "''s1''"
      and canva_user_id = "JStr ''u1''"
      and signature = "hexdigest (hmac_sha256 (encode_utf8 ''s1'') (encode_utf8 ''w1_c1''))"
      and auth_response = \<open>\<lparr>status_code = 403, response_text = ''{"error": "forbidden"}''\<rparr>\<close>,
      OF _ _ _ _ _ _ _ _ _ refl refl]
  by (auto simp add: example_env_def world_u1_def create_hmac_signature_def)

section \<open>The paths through login and refresh\<close>

lemma login_token_falsy:
  assumes "map_of kvs ''workspaceId'' = Some workspace_id"
      and "map_of kvs ''clientId'' = Some client_id"
      and "map_of kvs ''clientSecret'' = Some (JStr client_secret)"
      and "map_of kvs ''canvaUserId'' = Some canva_user_id"
      and "truthy workspace_id" and "truthy client_id" and "client_secret \<noteq> []"
      and "truthy canva_user_id"
      and "create_hmac_signature L workspace_id client_id (JStr client_secret) = Inr signature"
      and "auth_api E (auth_url E) (auth_request workspace_id client_id signature) = Inr auth_response"
      and "status_code auth_response \<in> {200, 201, 202}"
      and "json_loads L (response_text auth_response) = Some auth_data"
      and "token_or_access_token auth_data = Inr t" and "\<not> truthy t"
  shows "login L E w (Inr (JObj kvs))
         = ((JObj (failure ''No token received from Zotok API''), 401),
            w\<lparr>trace := trace w @ [HttpPost (auth_url E) (auth_request workspace_id client_id signature)]\<rparr>)"
  using assms
  by (auto simp add: login_def login_try_def raising_def requests_post_def Let_def)

lemma get_user_credentials_found:
  assumes "s3_client E" and "\<not> s3_get_raises E"
      and "s3_objects w (object_key L canva_user_id) = Some doc"
      and "json_loads L doc = Some user_data"
  shows "get_user_credentials L E w canva_user_id
         = (user_data, w\<lparr>trace := trace w @ [S3Get (object_key L canva_user_id)]\<rparr>)"
  using assms by (simp add: get_user_credentials_def Let_def)

lemma refresh_token_falsy:
  assumes "map_of kvs ''canvaUserId'' = Some canva_user_id" and "truthy canva_user_id"
      and "get_user_credentials L E w canva_user_id = (JObj stored, w1)"
      and "map_of stored ''workspace_id'' = Some workspace_id"
      and "map_of stored ''client_id'' = Some client_id"
      and "map_of stored ''client_secret'' = Some (JStr client_secret)"
      and "create_hmac_signature L workspace_id client_id (JStr client_secret) = Inr signature"
      and "auth_api E (auth_url E) (auth_request workspace_id client_id signature) = Inr auth_response"
      and "status_code auth_response \<in> {200, 201, 202}"
      and "json_loads L (response_text auth_response) = Some auth_data"
      and "token_or_access_token auth_data = Inr t" and "\<not> truthy t"
  shows "refresh_token L E w (Inr (JObj kvs))
         = ((JObj (failure ''No token received during refresh''), 401),
            w1\<lparr>trace := trace w1 @ [HttpPost (auth_url E) (auth_request workspace_id client_id signature)]\<rparr>)"
proof -
  from assms(4) have "stored \<noteq> []" by auto
  with assms show ?thesis
    by (auto simp add: refresh_token_def refresh_token_try_def raising_def requests_post_def Let_def)
qed

lemma login_store_fails:
  assumes "map_of kvs ''workspaceId'' = Some workspace_id"
      and "map_of kvs ''clientId'' = Some client_id"
      and "map_of kvs ''clientSecret'' = Some (JStr client_secret)"
      and "map_of kvs ''canvaUserId'' = Some canva_user_id"
      and "truthy workspace_id" and "truthy client_id" and "client_secret \<noteq> []"
      and "truthy canva_user_id"
      and "create_hmac_signature L workspace_id client_id (JStr client_secret) = Inr signature"
      and "auth_api E (auth_url E) (auth_request workspace_id client_id signature) = Inr auth_response"
      and "status_code auth_response \<in> {200, 201, 202}"
      and "json_loads L (response_text auth_response) = Some auth_data"
      and "token_or_access_token auth_data = Inr t" and "truthy t"
      and "\<not> s3_client E"
  shows "login L E w (Inr (JObj kvs))
         = ((JObj (failure ''Failed to store credentials''), 500),
            w\<lparr>trace := trace w @ [HttpPost (auth_url E) (auth_request workspace_id client_id signature)]\<rparr>)"
  using assms
  by (auto simp add: login_def login_try_def raising_def requests_post_def store_user_credentials_def Let_def)


lemma store_trace:
  "store_user_credentials L E w uid ws cid cs t n = (b, w') \<Longrightarrow>
   trace w' = trace w \<or>
   trace w' = trace w @ [S3Put (object_key L uid)
                          (json_dumps L (user_record uid ws cid cs t (isoformat L (clock E 0)) n))]"
  by (auto simp: store_user_credentials_def put_object_def Let_def split: if_splits)

lemma get_trace:
  "get_user_credentials L E w uid = (r, w') \<Longrightarrow>
   trace w' = trace w \<or> trace w' = trace w @ [S3Get (object_key L uid)]"
  by (auto simp: get_user_credentials_def Let_def split: if_splits option.splits)

lemma login_try_puts:
  assumes "S3Put k b \<in> set (trace (case login_try L E w req of Inl (e, w') \<Rightarrow> w' | Inr (r, w') \<Rightarrow> w'))"
      and "S3Put k b \<notin> set (trace w)"
  shows "\<exists>uid ws cid cs t ts.
           b = json_dumps L (user_record uid ws cid cs t ts TOKEN_EXPIRY_SECONDS) \<and> truthy t"
  using assms
  unfolding login_try_def raising_def requests_post_def Let_def
  by (auto split: sum.splits option.splits if_splits prod.splits dest!: store_trace) blast+

lemma refresh_token_try_puts:
  assumes "S3Put k b \<in> set (trace (case refresh_token_try L E w req of Inl (e, w') \<Rightarrow> w' | Inr (r, w') \<Rightarrow> w'))"
      and "S3Put k b \<notin> set (trace w)"
  shows "\<exists>uid ws cid cs t ts.
           b = json_dumps L (user_record uid ws cid cs t ts TOKEN_EXPIRY_SECONDS) \<and> truthy t"
  using assms
  unfolding refresh_token_try_def raising_def requests_post_def Let_def
  by (auto split: sum.splits option.splits if_splits prod.splits dest!: store_trace get_trace) blast+

lemma snd_login:
  "snd (login L E w req) = (case login_try L E w req of Inl (e, w') \<Rightarrow> w' | Inr (r, w') \<Rightarrow> w')"
  by (auto simp: login_def split: sum.splits exn.splits)

lemma snd_refresh_token:
  "snd (refresh_token L E w req)
   = (case refresh_token_try L E w req of Inl (e, w') \<Rightarrow> w' | Inr (r, w') \<Rightarrow> w')"
  by (auto simp: refresh_token_def split: sum.splits)

lemma map_of_without:
  "map_of (filter (\<lambda>kv. fst kv \<noteq> k) kvs) k' = (if k' = k then None else map_of kvs k')"
  by (induct kvs) auto

lemma truthy_nonempty: "truthy t \<Longrightarrow> t \<noteq> JStr [] \<and> t \<noteq> JNull"
  by (cases t) auto

section \<open>Token extraction\<close>



section \<open>The scenario, run\<close>

text \<open>The login of the scenario and the later refresh, evaluated: the replies and the
  states they leave.\<close>

lemmas handler_defs =
  login_def login_try_def refresh_token_def refresh_token_try_def raising_def requests_post_def
  store_user_credentials_def get_user_credentials_def put_object_def token_or_access_token_def
  create_hmac_signature_def object_key_def TOKEN_EXPIRY_SECONDS_def Let_def failure_def

lemma example_login_run:
  \<open>login example_lib (example_env True t_login (reply_token ''{"token": "tok123"}'')) empty_world
     (Inr login_request_u1)
   = ((JObj [(''success'', JBool True),
             (''token'', JStr ''tok123''),
             (''expires_in'', JInt 2419200),
             (''expires_in_days'', JFloat 28),
             (''message'', JStr ''Authentication successful - token valid for 28 days'')], 200),
      \<lparr> s3_objects = [''canva-catalog-app/u1.json'' \<mapsto> doc_u1],
        trace = [HttpPost ''https://api-qa.zono.digital/mdm-integration/v1/api/auth/login''
                   (auth_request (JStr ''w1'') (JStr ''c1'') signature_u1),
                 S3Put ''canva-catalog-app/u1.json'' doc_u1] \<rparr>)\<close>
  by (simp add: handler_defs example_defs example_env_def empty_world_def reply_token_def
        login_request_u1_def signature_u1_def)

lemma example_refresh_run:
  \<open>refresh_token example_lib (example_env True t_refresh (reply_token ''{"token": "tok456"}''))
     (world_u1 doc_u1_phone) (Inr refresh_request_u1)
   = ((JObj [(''success'', JBool True),
             (''token'', JStr ''tok456''),
             (''expires_in'', JInt 2419200),
             (''expires_in_days'', JFloat 28),
             (''message'', JStr ''Token refreshed successfully - valid for 28 days'')], 200),
      \<lparr> s3_objects = [''canva-catalog-app/u1.json'' \<mapsto> doc_u1_refreshed],
        trace = [S3Get ''canva-catalog-app/u1.json'',
                 HttpPost ''https://api-qa.zono.digital/mdm-integration/v1/api/auth/login''
                   (auth_request (JStr ''w1'') (JStr ''c1'') signature_u1),
                 S3Put ''canva-catalog-app/u1.json'' doc_u1_refreshed] \<rparr>)\<close>
  by (simp add: handler_defs example_defs example_env_def world_u1_def reply_token_def
        refresh_request_u1_def signature_u1_def)

section \<open>Refresh and the settings fields\<close>

text \<open>
  C1.  The claim is that a successful refresh keeps the \<open>phoneNumber\<close> of the stored
  record.  The code does not: \<open>refresh_token\<close> writes through
  \<open>store_user_credentials\<close>, which builds a new record of seven fields.  In the
  scenario the record of \<open>u1\<close> carries \<open>phoneNumber = +15550100\<close> before the
  refresh; the refresh succeeds (200), and the record read back afterwards is the
  seven-field record with the new token, in which \<open>phoneNumber\<close> is absent.
\<close>

theorem refresh_drops_phoneNumber:
  \<open>py_get (fst (get_user_credentials example_lib
                  (example_env True t_refresh (reply_token ''{"token": "tok456"}''))
                  (world_u1 doc_u1_phone) (JStr ''u1''))) ''phoneNumber'' JNull
     = Inr (JStr ''+15550100'')
   \<and> snd (fst (refresh_token example_lib
                  (example_env True t_refresh (reply_token ''{"token": "tok456"}''))
                  (world_u1 doc_u1_phone) (Inr refresh_request_u1))) = 200
   \<and> fst (get_user_credentials example_lib
             (example_env True t_refresh (reply_token ''{"token": "tok456"}''))
             (snd (refresh_token example_lib
                     (example_env True t_refresh (reply_token ''{"token": "tok456"}''))
                     (world_u1 doc_u1_phone) (Inr refresh_request_u1)))
             (JStr ''u1''))
     = rec_u1_refreshed
   \<and> py_get rec_u1_refreshed ''phoneNumber'' JNull = Inr JNull\<close>
  by (simp add: example_refresh_run)
     (simp add: get_user_credentials_def object_key_def world_u1_def example_env_def example_defs
        Let_def)

section \<open>A missing S3 client\<close>

text \<open>
  C9, as claimed, fails.  With no S3 client and the record of \<open>u1\<close> in the bucket,
  \<open>get_token\<close> answers 404 \<open>No stored credentials found\<close>, not 500, and
  \<open>get_user_credentials\<close> returns \<open>None\<close>, which is also what it returns, with a
  client, for a user without a record.
\<close>

theorem store_unavailable_counterexample:
  "get_token example_lib (example_env False t_login (reply_token [])) (world_u1 doc_u1) (Some ''u1'')
     = ((JObj (failure ''No stored credentials found''), 404), world_u1 doc_u1)
   \<and> get_user_credentials example_lib (example_env False t_login (reply_token []))
        (world_u1 doc_u1) (JStr ''u1'')
     = (JNull, world_u1 doc_u1)
   \<and> fst (get_user_credentials example_lib (example_env True t_login (reply_token []))
            empty_world (JStr ''u1''))
     = JNull"
  by (simp add: get_token_def get_token_try_def get_user_credentials_def example_env_def
        empty_world_def object_key_def)

text \<open>
  C9, amended.  When the S3 client was not created at start-up, \<open>get_user_credentials\<close>
  returns \<open>None\<close>, the result it also gives for a missing object, and both puts return
  \<open>False\<close>; none of them issues a call or changes the state.  A request that needs the
  stored record (get_token, refresh) is answered 404 \<open>No stored credentials found\<close>,
  and a login whose auth round trip succeeded is answered 500
  \<open>Failed to store credentials\<close>, the bucket unchanged.  Every request is answered.
\<close>

theorem store_unavailable:
  assumes "\<not> s3_client E"
  shows "get_user_credentials L E w canva_user_id = (JNull, w)
       \<and> store_user_credentials L E w canva_user_id workspace_id client_id client_secret
            login_token expires_in = (False, w)
       \<and> update_user_credentials L E w canva_user_id updated_data = (False, w)
       \<and> (s3_client E' \<and> s3_objects w (object_key L canva_user_id) = None \<longrightarrow>
            fst (get_user_credentials L E' w canva_user_id)
            = fst (get_user_credentials L E w canva_user_id))
       \<and> (uid \<noteq> [] \<longrightarrow>
            get_token L E w (Some uid)
            = ((JObj (failure ''No stored credentials found''), 404), w))
       \<and> (map_of refresh_kvs ''canvaUserId'' = Some canva_user_id \<and> truthy canva_user_id \<longrightarrow>
            refresh_token L E w (Inr (JObj refresh_kvs))
            = ((JObj (failure ''No stored credentials found''), 404), w))
       \<and> (map_of kvs ''workspaceId'' = Some workspace_id \<and> map_of kvs ''clientId'' = Some client_id
          \<and> map_of kvs ''clientSecret'' = Some (JStr secret)
          \<and> map_of kvs ''canvaUserId'' = Some canva_user_id
          \<and> truthy workspace_id \<and> truthy client_id \<and> secret \<noteq> [] \<and> truthy canva_user_id
          \<and> create_hmac_signature L workspace_id client_id (JStr secret) = Inr signature
          \<and> auth_api E (auth_url E) (auth_request workspace_id client_id signature) = Inr auth_response
          \<and> status_code auth_response \<in> {200, 201, 202}
          \<and> json_loads L (response_text auth_response) = Some auth_data
          \<and> token_or_access_token auth_data = Inr t \<and> truthy t \<longrightarrow>
            (\<exists>w'. login L E w (Inr (JObj kvs))
                    = ((JObj (failure ''Failed to store credentials''), 500), w')
                 \<and> s3_objects w' = s3_objects w
                 \<and> trace w' = trace w @ [HttpPost (auth_url E)
                                            (auth_request workspace_id client_id signature)]))"
proof (intro conjI impI)
  show get: "get_user_credentials L E w canva_user_id = (JNull, w)" for canva_user_id
    using assms by (simp add: get_user_credentials_def)
  show "store_user_credentials L E w canva_user_id workspace_id client_id client_secret
          login_token expires_in = (False, w)"
    using assms by (simp add: store_user_credentials_def)
  show "update_user_credentials L E w canva_user_id updated_data = (False, w)"
    using assms by (simp add: update_user_credentials_def)
  show "fst (get_user_credentials L E' w canva_user_id) = fst (get_user_credentials L E w canva_user_id)"
    if "s3_client E' \<and> s3_objects w (object_key L canva_user_id) = None"
    using that by (simp add: get get_user_credentials_def Let_def)
  show "get_token L E w (Some uid) = ((JObj (failure ''No stored credentials found''), 404), w)"
    if "uid \<noteq> []"
    using that by (simp add: get_token_def get_token_try_def get)
  show "refresh_token L E w (Inr (JObj refresh_kvs))
        = ((JObj (failure ''No stored credentials found''), 404), w)"
    if "map_of refresh_kvs ''canvaUserId'' = Some canva_user_id \<and> truthy canva_user_id"
    using that by (simp add: refresh_token_def refresh_token_try_def raising_def get)
  assume a: "map_of kvs ''workspaceId'' = Some workspace_id \<and> map_of kvs ''clientId'' = Some client_id
          \<and> map_of kvs ''clientSecret'' = Some (JStr secret)
          \<and> map_of kvs ''canvaUserId'' = Some canva_user_id
          \<and> truthy workspace_id \<and> truthy client_id \<and> secret \<noteq> [] \<and> truthy canva_user_id
          \<and> create_hmac_signature L workspace_id client_id (JStr secret) = Inr signature
          \<and> auth_api E (auth_url E) (auth_request workspace_id client_id signature) = Inr auth_response
          \<and> status_code auth_response \<in> {200, 201, 202}
          \<and> json_loads L (response_text auth_response) = Some auth_data
          \<and> token_or_access_token auth_data = Inr t \<and> truthy t"
  have "login L E w (Inr (JObj kvs))
        = ((JObj (failure ''Failed to store credentials''), 500),
           w\<lparr>trace := trace w @ [HttpPost (auth_url E)
                                   (auth_request workspace_id client_id signature)]\<rparr>)"
    using a assms
    by (intro login_store_fails [where canva_user_id = canva_user_id and auth_data = auth_data
                                   and t = t and client_secret = secret
                                   and auth_response = auth_response]) simp_all
  then show "\<exists>w'. login L E w (Inr (JObj kvs))
                    = ((JObj (failure ''Failed to store credentials''), 500), w')
                 \<and> s3_objects w' = s3_objects w
                 \<and> trace w' = trace w @ [HttpPost (auth_url E)
                                            (auth_request workspace_id client_id signature)]"
    by simp
qed

theorem store_unavailable_witness:
  \<open>get_user_credentials example_lib (example_env False t_login (reply_token ''{"token": "tok123"}''))
       (world_u1 doc_u1) (JStr ''u1'')
     = (JNull, world_u1 doc_u1)
   \<and> get_token example_lib (example_env False t_login (reply_token ''{"token": "tok123"}''))
        (world_u1 doc_u1) (Some ''u1'')
     = ((JObj (failure ''No stored credentials found''), 404), world_u1 doc_u1)
   \<and> refresh_token example_lib (example_env False t_login (reply_token ''{"token": "tok123"}''))
        (world_u1 doc_u1) (Inr refresh_request_u1)
     = ((JObj (failure ''No stored credentials found''), 404), world_u1 doc_u1)
   \<and> (\<exists>w'. login example_lib (example_env False t_login (reply_token ''{"token": "tok123"}''))
              (world_u1 doc_u1) (Inr login_request_u1)
            = ((JObj (failure ''Failed to store credentials''), 500), w')
          \<and> s3_objects w' = s3_objects (world_u1 doc_u1))\<close>
  using store_unavailable [where L = example_lib and w = "world_u1 doc_u1"
      and E = \<open>example_env False t_login (reply_token ''{"token": "tok123"}'')\<close>
      and E' = \<open>example_env True t_login (reply_token ''{"token": "tok123"}'')\<close>
      and canva_user_id = "JStr ''u1''" and uid = "''u1''"
      and refresh_kvs = "[(''canvaUserId'', JStr ''u1'')]"
      and kvs = "[(''workspaceId'', JStr ''w1''), (''clientId'', JStr ''c1''),
                  (''clientSecret'', JStr ''s1''), (''canvaUserId'', JStr ''u1'')]"
      and workspace_id = "JStr ''w1''" and client_id = "JStr ''c1''" and secret = "''s1''"
      and signature = signature_u1
      and auth_response = \<open>reply_token ''{"token": "tok123"}''\<close>
      and auth_data = "JObj [(''token'', JStr ''tok123'')]" and t = "JStr ''tok123''"
      and client_secret = "JStr ''s1''" and login_token = "JStr ''tok123''"
      and expires_in = 2419200 and updated_data = rec_u1]
  by (auto simp add: example_defs example_env_def reply_token_def create_hmac_signature_def
        signature_u1_def login_request_u1_def refresh_request_u1_def token_or_access_token_def)

section \<open>Persisted tokens\<close>

text \<open>
  C10.  Every S3 put issued by login or by refresh writes the text of a seven-field
  record whose \<open>login_token\<close> is truthy, hence neither the empty string nor \<open>None\<close>.
  A reply whose \<open>token\<close> is the empty string is handled like the same reply without
  that field; when \<open>access_token\<close> is absent as well, login and refresh answer 401
  (\<open>No token received ...\<close>) and write nothing.
\<close>

theorem persisted_token_nonempty:
  "(S3Put key doc \<in> set (trace (snd (login L E w request_json)))
      \<and> S3Put key doc \<notin> set (trace w) \<longrightarrow>
      (\<exists>uid ws cid cs token ts.
          doc = json_dumps L (user_record uid ws cid cs token ts TOKEN_EXPIRY_SECONDS)
        \<and> truthy token \<and> token \<noteq> JStr [] \<and> token \<noteq> JNull))
   \<and> (S3Put key doc \<in> set (trace (snd (refresh_token L E w request_json)))
      \<and> S3Put key doc \<notin> set (trace w) \<longrightarrow>
      (\<exists>uid ws cid cs token ts.
          doc = json_dumps L (user_record uid ws cid cs token ts TOKEN_EXPIRY_SECONDS)
        \<and> truthy token \<and> token \<noteq> JStr [] \<and> token \<noteq> JNull))
   \<and> (map_of reply_fields ''token'' = Some (JStr []) \<longrightarrow>
        token_or_access_token (JObj reply_fields)
        = token_or_access_token (JObj (filter (\<lambda>kv. fst kv \<noteq> ''token'') reply_fields)))
   \<and> (map_of kvs ''workspaceId'' = Some workspace_id \<and> map_of kvs ''clientId'' = Some client_id
      \<and> map_of kvs ''clientSecret'' = Some (JStr client_secret)
      \<and> map_of kvs ''canvaUserId'' = Some canva_user_id
      \<and> truthy workspace_id \<and> truthy client_id \<and> client_secret \<noteq> [] \<and> truthy canva_user_id
      \<and> create_hmac_signature L workspace_id client_id (JStr client_secret) = Inr signature
      \<and> auth_api E (auth_url E) (auth_request workspace_id client_id signature) = Inr auth_response
      \<and> status_code auth_response \<in> {200, 201, 202}
      \<and> json_loads L (response_text auth_response) = Some (JObj body)
      \<and> map_of body ''token'' = Some (JStr []) \<and> map_of body ''access_token'' = None \<longrightarrow>
        (\<exists>w'. login L E w (Inr (JObj kvs))
                = ((JObj (failure ''No token received from Zotok API''), 401), w')
             \<and> s3_objects w' = s3_objects w
             \<and> trace w' = trace w @ [HttpPost (auth_url E)
                                        (auth_request workspace_id client_id signature)]))
   \<and> (map_of kvs ''canvaUserId'' = Some canva_user_id \<and> truthy canva_user_id
      \<and> s3_client E \<and> \<not> s3_get_raises E
      \<and> s3_objects w (object_key L canva_user_id) = Some stored_doc
      \<and> json_loads L stored_doc = Some (JObj stored)
      \<and> map_of stored ''workspace_id'' = Some workspace_id
      \<and> map_of stored ''client_id'' = Some client_id
      \<and> map_of stored ''client_secret'' = Some (JStr client_secret)
      \<and> create_hmac_signature L workspace_id client_id (JStr client_secret) = Inr signature
      \<and> auth_api E (auth_url E) (auth_request workspace_id client_id signature) = Inr auth_response
      \<and> status_code auth_response \<in> {200, 201, 202}
      \<and> json_loads L (response_text auth_response) = Some (JObj body)
      \<and> map_of body ''token'' = Some (JStr []) \<and> map_of body ''access_token'' = None \<longrightarrow>
        (\<exists>w'. refresh_token L E w (Inr (JObj kvs))
                = ((JObj (failure ''No token received during refresh''), 401), w')
             \<and> s3_objects w' = s3_objects w
             \<and> trace w' = trace w @ [S3Get (object_key L canva_user_id),
                                      HttpPost (auth_url E)
                                        (auth_request workspace_id client_id signature)]))"
proof (intro conjI impI)
  assume "S3Put key doc \<in> set (trace (snd (login L E w request_json)))
          \<and> S3Put key doc \<notin> set (trace w)"
  then obtain uid ws cid cs token ts
    where "doc = json_dumps L (user_record uid ws cid cs token ts TOKEN_EXPIRY_SECONDS)"
      and "truthy token"
    unfolding snd_login using login_try_puts [of key doc L E w request_json] by blast
  then show "\<exists>uid ws cid cs token ts.
          doc = json_dumps L (user_record uid ws cid cs token ts TOKEN_EXPIRY_SECONDS)
        \<and> truthy token \<and> token \<noteq> JStr [] \<and> token \<noteq> JNull"
    using truthy_nonempty by blast
next
  assume "S3Put key doc \<in> set (trace (snd (refresh_token L E w request_json)))
          \<and> S3Put key doc \<notin> set (trace w)"
  then obtain uid ws cid cs token ts
    where "doc = json_dumps L (user_record uid ws cid cs token ts TOKEN_EXPIRY_SECONDS)"
      and "truthy token"
    unfolding snd_refresh_token using refresh_token_try_puts [of key doc L E w request_json] by blast
  then show "\<exists>uid ws cid cs token ts.
          doc = json_dumps L (user_record uid ws cid cs token ts TOKEN_EXPIRY_SECONDS)
        \<and> truthy token \<and> token \<noteq> JStr [] \<and> token \<noteq> JNull"
    using truthy_nonempty by blast
next
  assume "map_of reply_fields ''token'' = Some (JStr [])"
  then show "token_or_access_token (JObj reply_fields)
        = token_or_access_token (JObj (filter (\<lambda>kv. fst kv \<noteq> ''token'') reply_fields))"
    by (simp add: token_or_access_token_def map_of_without)
next
  assume a: "map_of kvs ''workspaceId'' = Some workspace_id \<and> map_of kvs ''clientId'' = Some client_id
      \<and> map_of kvs ''clientSecret'' = Some (JStr client_secret)
      \<and> map_of kvs ''canvaUserId'' = Some canva_user_id
      \<and> truthy workspace_id \<and> truthy client_id \<and> client_secret \<noteq> [] \<and> truthy canva_user_id
      \<and> create_hmac_signature L workspace_id client_id (JStr client_secret) = Inr signature
      \<and> auth_api E (auth_url E) (auth_request workspace_id client_id signature) = Inr auth_response
      \<and> status_code auth_response \<in> {200, 201, 202}
      \<and> json_loads L (response_text auth_response) = Some (JObj body)
      \<and> map_of body ''token'' = Some (JStr []) \<and> map_of body ''access_token'' = None"
  then have "token_or_access_token (JObj body) = Inr JNull" "\<not> truthy JNull"
    by (simp_all add: token_or_access_token_def)
  with a have "login L E w (Inr (JObj kvs))
        = ((JObj (failure ''No token received from Zotok API''), 401),
           w\<lparr>trace := trace w @ [HttpPost (auth_url E)
                                   (auth_request workspace_id client_id signature)]\<rparr>)"
    by (intro login_token_falsy [where canva_user_id = canva_user_id and auth_data = "JObj body"
                                   and t = JNull and auth_response = auth_response
                                   and client_secret = client_secret]) simp_all
  then show "\<exists>w'. login L E w (Inr (JObj kvs))
                = ((JObj (failure ''No token received from Zotok API''), 401), w')
             \<and> s3_objects w' = s3_objects w
             \<and> trace w' = trace w @ [HttpPost (auth_url E)
                                        (auth_request workspace_id client_id signature)]"
    by simp
next
  assume a: "map_of kvs ''canvaUserId'' = Some canva_user_id \<and> truthy canva_user_id
      \<and> s3_client E \<and> \<not> s3_get_raises E
      \<and> s3_objects w (object_key L canva_user_id) = Some stored_doc
      \<and> json_loads L stored_doc = Some (JObj stored)
      \<and> map_of stored ''workspace_id'' = Some workspace_id
      \<and> map_of stored ''client_id'' = Some client_id
      \<and> map_of stored ''client_secret'' = Some (JStr client_secret)
      \<and> create_hmac_signature L workspace_id client_id (JStr client_secret) = Inr signature
      \<and> auth_api E (auth_url E) (auth_request workspace_id client_id signature) = Inr auth_response
      \<and> status_code auth_response \<in> {200, 201, 202}
      \<and> json_loads L (response_text auth_response) = Some (JObj body)
      \<and> map_of body ''token'' = Some (JStr []) \<and> map_of body ''access_token'' = None"
  then have none: "token_or_access_token (JObj body) = Inr JNull" "\<not> truthy JNull"
    by (simp_all add: token_or_access_token_def)
  from a have get: "get_user_credentials L E w canva_user_id
                    = (JObj stored, w\<lparr>trace := trace w @ [S3Get (object_key L canva_user_id)]\<rparr>)"
    by (intro get_user_credentials_found [where doc = stored_doc]) simp_all
  have "refresh_token L E w (Inr (JObj kvs))
        = ((JObj (failure ''No token received during refresh''), 401),
           (w\<lparr>trace := trace w @ [S3Get (object_key L canva_user_id)]\<rparr>)
             \<lparr>trace := trace (w\<lparr>trace := trace w @ [S3Get (object_key L canva_user_id)]\<rparr>)
                        @ [HttpPost (auth_url E) (auth_request workspace_id client_id signature)]\<rparr>)"
    using a none
    by (intro refresh_token_falsy [where canva_user_id = canva_user_id and auth_data = "JObj body"
          and t = JNull and auth_response = auth_response and client_secret = client_secret,
          OF _ _ get]) simp_all
  then show "\<exists>w'. refresh_token L E w (Inr (JObj kvs))
                = ((JObj (failure ''No token received during refresh''), 401), w')
             \<and> s3_objects w' = s3_objects w
             \<and> trace w' = trace w @ [S3Get (object_key L canva_user_id),
                                      HttpPost (auth_url E)
                                        (auth_request workspace_id client_id signature)]"
    by simp
qed

theorem persisted_token_nonempty_witness:
  \<open>(\<exists>uid ws cid cs token ts.
        doc_u1 = json_dumps example_lib (user_record uid ws cid cs token ts TOKEN_EXPIRY_SECONDS)
      \<and> truthy token \<and> token \<noteq> JStr [] \<and> token \<noteq> JNull)
   \<and> (\<exists>uid ws cid cs token ts.
        doc_u1_refreshed = json_dumps example_lib (user_record uid ws cid cs token ts TOKEN_EXPIRY_SECONDS)
      \<and> truthy token \<and> token \<noteq> JStr [] \<and> token \<noteq> JNull)
   \<and> token_or_access_token (JObj [(''token'', JStr []), (''access_token'', JStr ''tok789'')])
     = token_or_access_token (JObj [(''access_token'', JStr ''tok789'')])
   \<and> (\<exists>w'. login example_lib (example_env True t_login (reply_token ''{"token": ""}''))
              empty_world (Inr login_request_u1)
            = ((JObj (failure ''No token received from Zotok API''), 401), w')
          \<and> s3_objects w' = s3_objects empty_world)
   \<and> (\<exists>w'. refresh_token example_lib (example_env True t_refresh (reply_token ''{"token": ""}''))
              (world_u1 doc_u1_phone) (Inr refresh_request_u1)
            = ((JObj (failure ''No token received during refresh''), 401), w')
          \<and> s3_objects w' = s3_objects (world_u1 doc_u1_phone))\<close>
proof (intro conjI)
  note run = persisted_token_nonempty [where L = example_lib
      and reply_fields = "[(''token'', JStr []), (''access_token'', JStr ''tok789'')]"
      and workspace_id = "JStr ''w1''" and client_id = "JStr ''c1''" and client_secret = "''s1''"
      and canva_user_id = "JStr ''u1''" and signature = signature_u1
      and body = "[(''token'', JStr [])]" and stored_doc = doc_u1_phone
      and stored = "credentials_u1 ''tok123'' ''2024-01-01T00:00:00+00:00''
                    @ [(''phoneNumber'', JStr ''+15550100''),
                       (''settings_updated'', JStr ''2024-01-02T00:00:00+00:00'')]"
      and key = "''canva-catalog-app/u1.json''"]
  show "\<exists>uid ws cid cs token ts.
        doc_u1 = json_dumps example_lib (user_record uid ws cid cs token ts TOKEN_EXPIRY_SECONDS)
      \<and> truthy token \<and> token \<noteq> JStr [] \<and> token \<noteq> JNull"
    using run [where E = \<open>example_env True t_login (reply_token ''{"token": "tok123"}'')\<close>
        and w = empty_world and request_json = "Inr login_request_u1" and doc = doc_u1
        and kvs = "[]" and auth_response = "reply_token []", THEN conjunct1]
    unfolding example_login_run by (simp add: empty_world_def)
  show "\<exists>uid ws cid cs token ts.
        doc_u1_refreshed = json_dumps example_lib (user_record uid ws cid cs token ts TOKEN_EXPIRY_SECONDS)
      \<and> truthy token \<and> token \<noteq> JStr [] \<and> token \<noteq> JNull"
    using run [where E = \<open>example_env True t_refresh (reply_token ''{"token": "tok456"}'')\<close>
        and w = "world_u1 doc_u1_phone" and request_json = "Inr refresh_request_u1"
        and doc = doc_u1_refreshed
        and kvs = "[]" and auth_response = "reply_token []", THEN conjunct2, THEN conjunct1]
    unfolding example_refresh_run by (simp add: world_u1_def)
  show "token_or_access_token (JObj [(''token'', JStr []), (''access_token'', JStr ''tok789'')])
     = token_or_access_token (JObj [(''access_token'', JStr ''tok789'')])"
    using run [where E = \<open>example_env True t_login (reply_token ''{"token": ""}'')\<close>
        and w = empty_world and request_json = "Inr login_request_u1" and doc = doc_u1
        and kvs = "[]" and auth_response = "reply_token []",
        THEN conjunct2, THEN conjunct2, THEN conjunct1]
    by simp
  show \<open>\<exists>w'. login example_lib (example_env True t_login (reply_token ''{"token": ""}''))
              empty_world (Inr login_request_u1)
            = ((JObj (failure ''No token received from Zotok API''), 401), w')
          \<and> s3_objects w' = s3_objects empty_world\<close>
    using run [where E = \<open>example_env True t_login (reply_token ''{"token": ""}'')\<close>
        and w = empty_world and request_json = "Inr login_request_u1" and doc = doc_u1
        and kvs = "[(''workspaceId'', JStr ''w1''), (''clientId'', JStr ''c1''),
                    (''clientSecret'', JStr ''s1''), (''canvaUserId'', JStr ''u1'')]"
        and auth_response = \<open>reply_token ''{"token": ""}''\<close>,
        THEN conjunct2, THEN conjunct2, THEN conjunct2, THEN conjunct1]
    by (auto simp add: example_defs example_env_def reply_token_def create_hmac_signature_def
          signature_u1_def login_request_u1_def)
  show \<open>\<exists>w'. refresh_token example_lib (example_env True t_refresh (reply_token ''{"token": ""}''))
              (world_u1 doc_u1_phone) (Inr refresh_request_u1)
            = ((JObj (failure ''No token received during refresh''), 401), w')
          \<and> s3_objects w' = s3_objects (world_u1 doc_u1_phone)\<close>
    using run [where E = \<open>example_env True t_refresh (reply_token ''{"token": ""}'')\<close>
        and w = "world_u1 doc_u1_phone" and request_json = "Inr refresh_request_u1"
        and doc = doc_u1
        and kvs = "[(''canvaUserId'', JStr ''u1'')]"
        and auth_response = \<open>reply_token ''{"token": ""}''\<close>,
        THEN conjunct2, THEN conjunct2, THEN conjunct2, THEN conjunct2]
    by (auto simp add: example_defs example_env_def reply_token_def create_hmac_signature_def
          signature_u1_def refresh_request_u1_def world_u1_def object_key_def)
qed

end
